theory Spec2Isabelle
  imports Complex_Main "HOL-Library.Log_Nat" "HOL-Library.Sublist" "HOL-Library.Multiset"
begin

section \<open>Python values the program works on\<close>

text \<open>
  The program is \<^verbatim>\<open>Acad-BlingFinal.py\<close>, an expense tracker. A Python \<^verbatim>\<open>str\<close> is a
  sequence of Unicode code points, so it is modelled as a list of code points (natural
  numbers); \<open>ascii\<close> writes an ASCII literal. A Python \<^verbatim>\<open>float\<close> is modelled by the
  rational number it denotes; the rounding of every float operation is the function
  \<open>fl\<close> of the runtime below. Doubles beyond the finite range (\<^verbatim>\<open>inf\<close>, \<^verbatim>\<open>nan\<close>, overflow)
  have no rational value and are outside the model.
\<close>

type_synonym pystr = "nat list"

definition ascii :: "string \<Rightarrow> pystr" where
  "ascii s = map of_char s"

text \<open>\<^verbatim>\<open>str.isspace\<close> on one character: the white space of the Unicode character database.\<close>

definition isspace :: "nat \<Rightarrow> bool" where
  "isspace c = ((0x09 \<le> c \<and> c \<le> 0x0D) \<or> (0x1C \<le> c \<and> c \<le> 0x20) \<or> c = 0x85 \<or> c = 0xA0
     \<or> c = 0x1680 \<or> (0x2000 \<le> c \<and> c \<le> 0x200A) \<or> c = 0x2028 \<or> c = 0x2029
     \<or> c = 0x202F \<or> c = 0x205F \<or> c = 0x3000)"

text \<open>\<^verbatim>\<open>str.strip()\<close>: leading and trailing white space removed.\<close>

definition strip :: "pystr \<Rightarrow> pystr" where
  "strip s = rev (dropWhile isspace (rev (dropWhile isspace s)))"

text \<open>\<^verbatim>\<open>s.split(sep)\<close> for a one-character separator: always at least one segment.\<close>

fun split_on :: "nat \<Rightarrow> pystr \<Rightarrow> pystr list" where
  "split_on sep [] = [[]]"
| "split_on sep (c # cs) =
     (if c = sep then [] # split_on sep cs
      else (case split_on sep cs of seg # segs \<Rightarrow> (c # seg) # segs | [] \<Rightarrow> [[c]]))"

record py_datetime =
  year :: int
  month :: int
  day :: int

text \<open>
  What the program takes from the Python runtime and its standard library, none of it code
  of this repository: the two Unicode tables behind \<^verbatim>\<open>str.isdigit\<close> and behind the decimal
  digits that \<^verbatim>\<open>int()\<close>, \<^verbatim>\<open>float()\<close> and \<^verbatim>\<open>\d\<close> accept, the rounding of float results,
  and the two date parsers (\<open>None\<close> when the parser raises).
  Every function of the model takes the runtime as its first argument, and the general
  theorems hold for every runtime; \<open>cpython\<close> below is the instance the examples run on.
\<close>

record runtime =
  isdigit :: "nat \<Rightarrow> bool"
  todecimal :: "nat \<Rightarrow> nat option"
  fl :: "rat \<Rightarrow> rat"
  strptime_ymd :: "pystr \<Rightarrow> py_datetime option"
  fromisoformat :: "pystr \<Rightarrow> py_datetime option"

subsection \<open>Reading numbers from text\<close>

definition is_ascii_digit :: "nat \<Rightarrow> bool" where
  "is_ascii_digit c = (48 \<le> c \<and> c \<le> 57)"

definition digits_value :: "pystr \<Rightarrow> nat" where
  "digits_value ds = foldl (\<lambda>a c. 10 * a + (c - 48)) 0 ds"

text \<open>
  Both \<^verbatim>\<open>int(str)\<close> and \<^verbatim>\<open>float(str)\<close> first bring the text to ASCII: a non-ASCII white
  space becomes a blank, a non-ASCII decimal digit its ASCII digit, and any other non-ASCII
  character makes the conversion fail.
\<close>

definition to_ascii_char :: "runtime \<Rightarrow> nat \<Rightarrow> nat option" where
  "to_ascii_char py c =
     (if c < 127 then Some c
      else if isspace c then Some 32
      else map_option (\<lambda>d. 48 + d) (todecimal py c))"

fun those_list :: "'a option list \<Rightarrow> 'a list option" where
  "those_list [] = Some []"
| "those_list (x # xs) =
     (case x of None \<Rightarrow> None
      | Some y \<Rightarrow> (case those_list xs of None \<Rightarrow> None | Some ys \<Rightarrow> Some (y # ys)))"

definition to_ascii :: "runtime \<Rightarrow> pystr \<Rightarrow> pystr option" where
  "to_ascii py s = those_list (map (to_ascii_char py) s)"

text \<open>The white space the two converters skip at both ends (C's \<^verbatim>\<open>isspace\<close>).\<close>

definition c_isspace :: "nat \<Rightarrow> bool" where
  "c_isspace c = ((9 \<le> c \<and> c \<le> 13) \<or> c = 32)"

definition c_strip :: "pystr \<Rightarrow> pystr" where
  "c_strip s = rev (dropWhile c_isspace (rev (dropWhile c_isspace s)))"

text \<open>
  Underscores in a numeric literal: each must stand between two digits; they are then
  dropped.
\<close>

fun underscores_ok :: "nat \<Rightarrow> pystr \<Rightarrow> bool" where
  "underscores_ok prev [] = (prev \<noteq> 95)"
| "underscores_ok prev (c # cs) =
     ((if c = 95 then is_ascii_digit prev else if prev = 95 then is_ascii_digit c else True)
      \<and> underscores_ok c cs)"

definition drop_underscores :: "pystr \<Rightarrow> pystr option" where
  "drop_underscores s = (if underscores_ok 0 s then Some (filter (\<lambda>c. c \<noteq> 95) s) else None)"

definition split_sign :: "pystr \<Rightarrow> rat \<times> pystr" where
  "split_sign s =
     (case s of [] \<Rightarrow> (1, [])
      | c # r \<Rightarrow> if c = 43 then (1, r) else if c = 45 then (- 1, r) else (1, s))"

text \<open>The exponent of a float literal: nothing, or \<^verbatim>\<open>e\<close>, an optional sign and digits.\<close>

definition parse_exponent :: "pystr \<Rightarrow> int option" where
  "parse_exponent s =
     (case s of [] \<Rightarrow> Some 0
      | c # r \<Rightarrow>
          if c = 101 \<or> c = 69 then
            (let (sg, ds) = split_sign r
             in if ds \<noteq> [] \<and> list_all is_ascii_digit ds
                then Some ((if sg < 0 then - 1 else 1) * int (digits_value ds)) else None)
          else None)"

definition pow10 :: "int \<Rightarrow> rat" where
  "pow10 e = (if 0 \<le> e then 10 ^ nat e else 1 / 10 ^ nat (- e))"

text \<open>
  A decimal literal: sign, digits with an optional point (a digit on at least one
  side of it), optional exponent, and nothing after it.
\<close>

definition parse_decimal :: "pystr \<Rightarrow> rat option" where
  "parse_decimal s =
     (let (sg, body) = split_sign s;
          ip = takeWhile is_ascii_digit body;
          r1 = dropWhile is_ascii_digit body;
          fp = (case r1 of [] \<Rightarrow> [] | c # r \<Rightarrow> if c = 46 then takeWhile is_ascii_digit r else []);
          r2 = (case r1 of [] \<Rightarrow> [] | c # r \<Rightarrow> if c = 46 then dropWhile is_ascii_digit r else r1)
      in if ip = [] \<and> fp = [] then None
         else (case parse_exponent r2 of None \<Rightarrow> None
               | Some e \<Rightarrow>
                   Some (sg * of_nat (digits_value (ip @ fp)) * pow10 (e - int (length fp)))))"

text \<open>
  \<^verbatim>\<open>float(s)\<close> for a string: \<open>None\<close> when it raises \<^verbatim>\<open>ValueError\<close>, otherwise the double
  nearest to the literal. The underscores are checked and dropped on the whole text, the
  white space at both ends is skipped after that. The literals \<^verbatim>\<open>inf\<close>, \<^verbatim>\<open>infinity\<close> and
  \<^verbatim>\<open>nan\<close>, which \<^verbatim>\<open>float\<close> reads as doubles that are not finite, are no literals here:
  the model has \<open>None\<close> for them.
\<close>

definition py_float :: "runtime \<Rightarrow> pystr \<Rightarrow> rat option" where
  "py_float py s =
     (case to_ascii py s of None \<Rightarrow> None
      | Some a \<Rightarrow>
          (case drop_underscores a of None \<Rightarrow> None
           | Some t \<Rightarrow> map_option (fl py) (parse_decimal (c_strip t))))"

text \<open>\<^verbatim>\<open>int(s)\<close> for a string, base ten: \<open>None\<close> when it raises \<^verbatim>\<open>ValueError\<close>.\<close>

definition py_int :: "runtime \<Rightarrow> pystr \<Rightarrow> int option" where
  "py_int py s =
     (case to_ascii py s of None \<Rightarrow> None
      | Some a \<Rightarrow>
          (case drop_underscores (c_strip a) of None \<Rightarrow> None
           | Some t \<Rightarrow>
               (let (sg, ds) = split_sign t
                in if ds \<noteq> [] \<and> list_all is_ascii_digit ds
                   then Some ((if sg < 0 then - 1 else 1) * int (digits_value ds)) else None)))"

section \<open>Utilities\<close>

text \<open>
  \<^verbatim>\<open>safe_float(x)\<close>: strip, keep the characters that are digits (\<^verbatim>\<open>ch.isdigit()\<close>), a
  point or a minus, return 0.0 when nothing is left, otherwise \<^verbatim>\<open>float(cleaned)\<close>, and
  0.0 on any exception.
\<close>

definition safe_float :: "runtime \<Rightarrow> pystr \<Rightarrow> rat" where
  "safe_float py x =
     (let s = strip x;
          cleaned = filter (\<lambda>ch. isdigit py ch \<or> ch = 46 \<or> ch = 45) s
      in if cleaned = [] then 0
         else (case py_float py cleaned of None \<Rightarrow> 0 | Some v \<Rightarrow> v))"

text \<open>
  \<^verbatim>\<open>f"{n:04d}"\<close> and \<^verbatim>\<open>f"{n:02d}"\<close>: the decimal digits of an integer, padded with zeros
  on the left to the given width (the sign counts towards the width).
\<close>

function digits_of :: "nat \<Rightarrow> pystr" where
  "digits_of n = (if n < 10 then [48 + n] else digits_of (n div 10) @ [48 + n mod 10])"
  by pat_completeness auto
termination
  by (relation "measure (\<lambda>n. n)") auto

definition format_d :: "nat \<Rightarrow> int \<Rightarrow> pystr" where
  "format_d width n =
     (if n < 0 then 45 # replicate (width - 1 - length (digits_of (nat (- n)))) 48 @ digits_of (nat (- n))
      else replicate (width - length (digits_of (nat n))) 48 @ digits_of (nat n))"

definition month_key_text :: "int \<Rightarrow> int \<Rightarrow> pystr" where
  "month_key_text y m = format_d 4 y @ [45] @ format_d 2 m"

text \<open>
  \<^verbatim>\<open>date_to_month_key(date_str)\<close>: three nested \<^verbatim>\<open>try\<close> blocks. The innermost converts
  every non-blank segment between dashes with \<^verbatim>\<open>int\<close>; one segment that is not an integer
  raises, and the handler returns \<^verbatim>\<open>None\<close>.
\<close>

definition date_to_month_key :: "runtime \<Rightarrow> pystr \<Rightarrow> pystr option" where
  "date_to_month_key py date_str =
     (case strptime_ymd py date_str of
        Some d \<Rightarrow> Some (month_key_text (year d) (month d))
      | None \<Rightarrow>
          (case fromisoformat py date_str of
             Some d \<Rightarrow> Some (month_key_text (year d) (month d))
           | None \<Rightarrow>
               (case those_list (map (py_int py) (filter (\<lambda>p. strip p \<noteq> []) (split_on 45 date_str))) of
                  None \<Rightarrow> None
                | Some parts \<Rightarrow>
                    if length parts \<ge> 2 then Some (month_key_text (parts ! 0) (parts ! 1))
                    else None)))"

section \<open>The runtime the examples run on\<close>

text \<open>
  Python's floats are IEEE 754 doubles: the result of an operation is the exact result
  rounded to the nearest number with 53 significant bits, a tie going to the even one
  (exponents below the normal range keep the spacing \<open>2 ^ - 1074\<close>).
\<close>

definition pow2 :: "int \<Rightarrow> rat" where
  "pow2 e = (if 0 \<le> e then 2 ^ nat e else 1 / 2 ^ nat (- e))"

definition round_half_even :: "rat \<Rightarrow> int" where
  "round_half_even q =
     (let f = \<lfloor>q\<rfloor>; r = q - of_int f
      in if r < 1 / 2 then f else if 1 / 2 < r then f + 1 else if even f then f else f + 1)"

text \<open>\<open>ilog2 q\<close> is the \<open>k\<close> with \<open>2 ^ k \<le> q < 2 ^ (k + 1)\<close>, for a positive \<open>q\<close>.\<close>

definition ilog2 :: "rat \<Rightarrow> int" where
  "ilog2 q =
     (let (n, d) = quotient_of q; k = bitlen n - bitlen d
      in if pow2 k \<le> q then k else k - 1)"

definition binary64 :: "rat \<Rightarrow> rat" where
  "binary64 q =
     (if q = 0 then 0
      else (let e = max (ilog2 \<bar>q\<bar> - 52) (- 1074)
            in of_int (round_half_even (q / pow2 e)) * pow2 e))"

text \<open>
  The Unicode tables up to U+06FF: the ASCII digits, the superscripts two, three and one of
  Latin-1 (digits for \<^verbatim>\<open>isdigit\<close>, not decimal digits), and the Arabic-Indic digits.
  The digits of the scripts further on are left out of this instance; no example uses one.
\<close>

definition unicode_isdigit :: "nat \<Rightarrow> bool" where
  "unicode_isdigit c =
     ((0x30 \<le> c \<and> c \<le> 0x39) \<or> c = 0xB2 \<or> c = 0xB3 \<or> c = 0xB9
      \<or> (0x660 \<le> c \<and> c \<le> 0x669) \<or> (0x6F0 \<le> c \<and> c \<le> 0x6F9))"

definition unicode_todecimal :: "nat \<Rightarrow> nat option" where
  "unicode_todecimal c =
     (if 0x30 \<le> c \<and> c \<le> 0x39 then Some (c - 0x30)
      else if 0x660 \<le> c \<and> c \<le> 0x669 then Some (c - 0x660)
      else if 0x6F0 \<le> c \<and> c \<le> 0x6F9 then Some (c - 0x6F0)
      else None)"

definition is_leap :: "int \<Rightarrow> bool" where
  "is_leap y = (y mod 4 = 0 \<and> (y mod 100 \<noteq> 0 \<or> y mod 400 = 0))"

definition days_in_month :: "int \<Rightarrow> int \<Rightarrow> int" where
  "days_in_month y m =
     (if m = 2 then (if is_leap y then 29 else 28)
      else if m = 4 \<or> m = 6 \<or> m = 9 \<or> m = 11 then 30 else 31)"

definition valid_date :: "int \<Rightarrow> int \<Rightarrow> int \<Rightarrow> py_datetime option" where
  "valid_date y m d =
     (if 1 \<le> y \<and> y \<le> 9999 \<and> 1 \<le> m \<and> m \<le> 12 \<and> 1 \<le> d \<and> d \<le> days_in_month y m
      then Some \<lparr>year = y, month = m, day = d\<rparr> else None)"

text \<open>
  \<^verbatim>\<open>datetime.strptime(s, "%Y-%m-%d")\<close>: the whole string must match
  \<^verbatim>\<open>(\d\d\d\d)-(1[0-2]|0[1-9]|[1-9])-(3[0-1]|[1-2]\d|0[1-9]|[1-9]| [1-9])\<close>, where \<^verbatim>\<open>\d\<close> is
  any decimal digit, and the date must exist.
\<close>

definition decimal_number :: "(nat \<Rightarrow> nat option) \<Rightarrow> pystr \<Rightarrow> nat option" where
  "decimal_number dec s =
     map_option (foldl (\<lambda>a d. 10 * a + d) 0) (those_list (map dec s))"

definition month_directive :: "pystr \<Rightarrow> bool" where
  "month_directive s =
     (case s of
        [a] \<Rightarrow> 49 \<le> a \<and> a \<le> 57
      | [a, b] \<Rightarrow> (a = 49 \<and> 48 \<le> b \<and> b \<le> 50) \<or> (a = 48 \<and> 49 \<le> b \<and> b \<le> 57)
      | _ \<Rightarrow> False)"

definition day_directive :: "(nat \<Rightarrow> nat option) \<Rightarrow> pystr \<Rightarrow> bool" where
  "day_directive dec s =
     (case s of
        [a] \<Rightarrow> 49 \<le> a \<and> a \<le> 57
      | [a, b] \<Rightarrow> (a = 51 \<and> (b = 48 \<or> b = 49)) \<or> ((a = 49 \<or> a = 50) \<and> dec b \<noteq> None)
                 \<or> ((a = 48 \<or> a = 32) \<and> 49 \<le> b \<and> b \<le> 57)
      | _ \<Rightarrow> False)"

definition strptime_model :: "(nat \<Rightarrow> nat option) \<Rightarrow> pystr \<Rightarrow> py_datetime option" where
  "strptime_model dec s =
     (case split_on 45 s of
        [ys, ms, ds] \<Rightarrow>
          (if length ys = 4 \<and> month_directive ms \<and> day_directive dec ds then
             (case (decimal_number dec ys, decimal_number dec ms, decimal_number dec (filter (\<lambda>c. c \<noteq> 32) ds)) of
                (Some y, Some m, Some d) \<Rightarrow> valid_date (int y) (int m) (int d)
              | _ \<Rightarrow> None)
           else None)
      | _ \<Rightarrow> None)"

text \<open>
  \<^verbatim>\<open>datetime.fromisoformat(s)\<close>, for the forms every version of the library reads alike: the
  calendar date \<^verbatim>\<open>YYYY-MM-DD\<close>, alone or followed by one separator character and a time of
  day \<^verbatim>\<open>HH\<close>, \<^verbatim>\<open>HH:MM\<close> or \<^verbatim>\<open>HH:MM:SS\<close>. The further forms the library reads (fractions of
  a second, UTC offsets and, in later versions, dates without dashes and week dates) are
  left out of this instance.
\<close>

definition two_digits :: "pystr \<Rightarrow> nat option" where
  "two_digits s = (if length s = 2 \<and> list_all is_ascii_digit s then Some (digits_value s) else None)"

definition time_of_day_ok :: "pystr \<Rightarrow> bool" where
  "time_of_day_ok t =
     (case map two_digits (split_on 58 t) of
        [Some h] \<Rightarrow> h < 24
      | [Some h, Some m] \<Rightarrow> h < 24 \<and> m < 60
      | [Some h, Some m, Some s] \<Rightarrow> h < 24 \<and> m < 60 \<and> s < 60
      | _ \<Rightarrow> False)"

definition fromisoformat_model :: "pystr \<Rightarrow> py_datetime option" where
  "fromisoformat_model s =
     (if length s < 10 then None
      else if \<not> (length s = 10 \<or> (length s > 11 \<and> time_of_day_ok (drop 11 s))) then None
      else if \<not> (list_all is_ascii_digit (take 4 s) \<and> s ! 4 = 45 \<and> list_all is_ascii_digit (take 2 (drop 5 s))
                \<and> s ! 7 = 45 \<and> list_all is_ascii_digit (take 2 (drop 8 s))) then None
      else valid_date (int (digits_value (take 4 s))) (int (digits_value (take 2 (drop 5 s))))
             (int (digits_value (take 2 (drop 8 s)))))"

definition cpython :: runtime where
  "cpython = \<lparr>isdigit = unicode_isdigit, todecimal = unicode_todecimal, fl = binary64,
     strptime_ymd = strptime_model unicode_todecimal, fromisoformat = fromisoformat_model\<rparr>"

section \<open>The expense file\<close>

text \<open>
  \<^verbatim>\<open>expenses.csv\<close> is read and written through Python's \<^verbatim>\<open>csv\<close> module. The file is
  modelled by the records the module writes and reads back, each a list of fields, the
  header first; \<open>None\<close> is the file that does not exist. The quoting of the text in
  between is the module's own.
\<close>

type_synonym csv_file = "pystr list list"

record expense =
  Date :: pystr
  Category :: pystr
  Amount :: pystr
  Note :: pystr

definition expense_headers :: "pystr list" where
  "expense_headers = [ascii ''Date'', ascii ''Category'', ascii ''Amount'', ascii ''Note'']"

definition ensure_csv_exists :: "pystr list \<Rightarrow> csv_file option \<Rightarrow> csv_file option" where
  "ensure_csv_exists headers f = (case f of None \<Rightarrow> Some [headers] | Some recs \<Rightarrow> Some recs)"

text \<open>
  \<^verbatim>\<open>csv.DictReader\<close>: the first record names the fields; every later record that is not
  empty becomes a dictionary from the field names to its fields, a name given twice keeping
  the later field. A field the record is too short for is \<^verbatim>\<open>None\<close>, which \<^verbatim>\<open>r.get\<close>
  returns like a missing key.
\<close>

definition dict_reader :: "csv_file \<Rightarrow> (pystr \<Rightarrow> pystr option) list" where
  "dict_reader f =
     (case f of [] \<Rightarrow> []
      | fieldnames # recs \<Rightarrow>
          map (\<lambda>row. map_of (rev (zip fieldnames row))) (filter (\<lambda>row. row \<noteq> []) recs))"

text \<open>\<^verbatim>\<open>(r.get(key) or default)\<close>: the default also replaces an empty field.\<close>

definition get_or :: "(pystr \<Rightarrow> pystr option) \<Rightarrow> pystr \<Rightarrow> pystr \<Rightarrow> pystr" where
  "get_or r key dflt = (case r key of None \<Rightarrow> dflt | Some v \<Rightarrow> if v = [] then dflt else v)"

definition read_expenses :: "csv_file option \<Rightarrow> expense list \<times> csv_file option" where
  "read_expenses f =
     (let f1 = ensure_csv_exists expense_headers f;
          rows = map (\<lambda>r. \<lparr>Date = strip (get_or r (ascii ''Date'') []),
                            Category = strip (get_or r (ascii ''Category'') []),
                            Amount = strip (get_or r (ascii ''Amount'') (ascii ''0'')),
                            Note = strip (get_or r (ascii ''Note'') [])\<rparr>)
                   (dict_reader (case f1 of None \<Rightarrow> [] | Some recs \<Rightarrow> recs))
      in (rows, f1))"

text \<open>
  \<^verbatim>\<open>write_expenses\<close> rewrites the whole file: the header, then for each row the record
  \<^verbatim>\<open>[r["Date"], r["Category"], r["Amount"], r.get("Note", "")]\<close>.
\<close>

definition row_fields :: "expense \<Rightarrow> pystr list" where
  "row_fields r = [Date r, Category r, Amount r, Note r]"

definition write_expenses :: "expense list \<Rightarrow> csv_file option \<Rightarrow> csv_file option" where
  "write_expenses expenses f = Some (expense_headers # map row_fields expenses)"

section \<open>Charts: totals by category and by month\<close>

text \<open>
  A \<^verbatim>\<open>defaultdict(float)\<close> keeps its keys in the order of their first use, so it is an
  association list; \<^verbatim>\<open>d[k] += amt\<close> adds to the entry of \<open>k\<close>, starting a new one from 0.0
  at the end. Every addition of two floats is rounded by the runtime.
\<close>

definition fadd :: "runtime \<Rightarrow> rat \<Rightarrow> rat \<Rightarrow> rat" where
  "fadd py a b = fl py (a + b)"

fun add_to :: "runtime \<Rightarrow> pystr \<Rightarrow> rat \<Rightarrow> (pystr \<times> rat) list \<Rightarrow> (pystr \<times> rat) list" where
  "add_to py k amt [] = [(k, fadd py 0 amt)]"
| "add_to py k amt ((k', v) # d) =
     (if k' = k then (k', fadd py v amt) # d else (k', v) # add_to py k amt d)"

text \<open>\<^verbatim>\<open>sum(values)\<close>: the values added one after the other, from 0.\<close>

definition py_sum :: "runtime \<Rightarrow> rat list \<Rightarrow> rat" where
  "py_sum py vs = foldl (fadd py) 0 vs"

text \<open>\<^verbatim>\<open>s or default\<close> for a string.\<close>

definition or_else :: "pystr \<Rightarrow> pystr \<Rightarrow> pystr" where
  "or_else s dflt = (if s = [] then dflt else s)"

text \<open>
  The loop of \<^verbatim>\<open>update_charts\<close> over the expenses; \<open>now\<close> is the current month,
  \<^verbatim>\<open>datetime.now().strftime("%Y-%m")\<close>. The state is the pair of the category totals and the
  month totals.
\<close>

definition tally :: "runtime \<Rightarrow> pystr \<Rightarrow> (pystr \<times> rat) list \<times> (pystr \<times> rat) list \<Rightarrow> expense
    \<Rightarrow> (pystr \<times> rat) list \<times> (pystr \<times> rat) list" where
  "tally py now totals r =
     (let amt = safe_float py (Amount r);
          cat = or_else (Category r) (ascii ''Uncategorized'');
          mkey = (case date_to_month_key py (Date r) of None \<Rightarrow> now | Some k \<Rightarrow> or_else k now)
      in (add_to py cat amt (fst totals), add_to py mkey amt (snd totals)))"

definition category_totals :: "runtime \<Rightarrow> pystr \<Rightarrow> expense list \<Rightarrow> (pystr \<times> rat) list" where
  "category_totals py now expenses = fst (foldl (tally py now) ([], []) expenses)"

definition month_totals :: "runtime \<Rightarrow> pystr \<Rightarrow> expense list \<Rightarrow> (pystr \<times> rat) list" where
  "month_totals py now expenses = snd (foldl (tally py now) ([], []) expenses)"

text \<open>
  \<^verbatim>\<open>sorted(items, key=lambda kv: kv[1], reverse=True)\<close>: a stable sort, largest value
  first.
\<close>

definition sorted_categories :: "(pystr \<times> rat) list \<Rightarrow> (pystr \<times> rat) list" where
  "sorted_categories items = sort_key (\<lambda>kv. - snd kv) items"

definition top_n :: nat where
  "top_n = 10"

text \<open>The bar chart of the top categories: \<^verbatim>\<open>cats\<close> and \<^verbatim>\<open>vals\<close>.\<close>

definition bar_cats :: "(pystr \<times> rat) list \<Rightarrow> pystr list" where
  "bar_cats sc = (let cats = map fst (take top_n sc) in if cats = [] then [ascii ''No data''] else cats)"

definition bar_vals :: "(pystr \<times> rat) list \<Rightarrow> rat list" where
  "bar_vals sc = (let vals = map snd (take top_n sc) in if vals = [] then [0] else vals)"

text \<open>The pie chart: \<^verbatim>\<open>labels\<close> and \<^verbatim>\<open>sizes\<close>, the sixth slice on gathered in \<^verbatim>\<open>Others\<close>.\<close>

definition pie_slices :: "runtime \<Rightarrow> (pystr \<times> rat) list \<Rightarrow> pystr list \<times> rat list" where
  "pie_slices py sc =
     (let pie_top = take 6 sc;
          labels = map fst pie_top;
          sizes = map snd pie_top;
          labels' = (if length sc > 6 then labels @ [ascii ''Others''] else labels);
          sizes' = (if length sc > 6 then sizes @ [py_sum py (map snd (drop 6 sc))] else sizes)
      in if py_sum py sizes' = 0 then ([ascii ''No data''], [1]) else (labels', sizes'))"

text \<open>
  What \<^verbatim>\<open>update_charts\<close> computes from the expenses and hands to the bar chart of the
  categories and to the pie chart. The chart of the incomes by month, which reads a second
  file, is left out.
\<close>

record charts =
  chart_category_totals :: "(pystr \<times> rat) list"
  chart_month_totals :: "(pystr \<times> rat) list"
  cats :: "pystr list"
  vals :: "rat list"
  labels :: "pystr list"
  sizes :: "rat list"

definition update_charts :: "runtime \<Rightarrow> pystr \<Rightarrow> csv_file option \<Rightarrow> charts" where
  "update_charts py now f =
     (let expenses = fst (read_expenses f);
          ct = category_totals py now expenses;
          sc = sorted_categories ct
      in \<lparr>chart_category_totals = ct, chart_month_totals = month_totals py now expenses,
          cats = bar_cats sc, vals = bar_vals sc,
          labels = fst (pie_slices py sc), sizes = snd (pie_slices py sc)\<rparr>)"

section \<open>The SIP calculator\<close>





datatype notice = InvalidInput | MissingFields | Saved | Deleted | RowUnavailable



section \<open>Editing and deleting a row\<close>

text \<open>
  \<^verbatim>\<open>EditExpenseDialog.on_save\<close> and \<^verbatim>\<open>on_delete\<close>: \<open>index\<close> is the row the dialog was opened
  on. Each returns the notice it shows (none when the deletion is not confirmed) and the
  file it leaves. The call \<^verbatim>\<open>safe_float(new_amt)\<close> in \<^verbatim>\<open>on_save\<close> never raises and its result
  is dropped, so it has no part in the outcome.
\<close>

definition on_save :: "int \<Rightarrow> pystr \<Rightarrow> pystr \<Rightarrow> pystr \<Rightarrow> pystr \<Rightarrow> csv_file option
    \<Rightarrow> notice \<times> csv_file option" where
  "on_save index date_field cat_field amt_field note_field f =
     (let new_date = strip date_field; new_cat = strip cat_field; new_amt = strip amt_field;
          new_note = strip note_field
      in if new_cat = [] \<or> new_amt = [] \<or> new_date = [] then (MissingFields, f)
         else (let (rows, f1) = read_expenses f
               in if 0 \<le> index \<and> index < int (length rows)
                  then (Saved, write_expenses
                          (rows[nat index := \<lparr>Date = new_date, Category = new_cat,
                                               Amount = new_amt, Note = new_note\<rparr>]) f1)
                  else (RowUnavailable, f1)))"

definition on_delete :: "int \<Rightarrow> bool \<Rightarrow> csv_file option \<Rightarrow> notice option \<times> csv_file option" where
  "on_delete index confirm f =
     (if confirm then
        (let (rows, f1) = read_expenses f
         in if 0 \<le> index \<and> index < int (length rows)
            then (Some Deleted, write_expenses (take (nat index) rows @ drop (Suc (nat index)) rows) f1)
            else (Some RowUnavailable, f1))
      else (None, f))"

section \<open>The totals, one dictionary at a time\<close>

text \<open>
  The loop of \<^verbatim>\<open>update_charts\<close> fills both dictionaries in one pass. For the proofs each
  dictionary is also written as a pass of its own over the rows, with the key the loop
  uses for it: the category, \<^verbatim>\<open>Uncategorized\<close> for a blank one, and the month key, the
  current month for a date that gives none.
\<close>

definition category_key :: "expense \<Rightarrow> pystr" where
  "category_key r = or_else (Category r) (ascii ''Uncategorized'')"

definition month_key_of :: "runtime \<Rightarrow> pystr \<Rightarrow> expense \<Rightarrow> pystr" where
  "month_key_of py now r =
     (case date_to_month_key py (Date r) of None \<Rightarrow> now | Some k \<Rightarrow> or_else k now)"

definition amount_of :: "runtime \<Rightarrow> expense \<Rightarrow> rat" where
  "amount_of py r = safe_float py (Amount r)"

definition totals_by :: "runtime \<Rightarrow> (expense \<Rightarrow> pystr) \<Rightarrow> expense list \<Rightarrow> (pystr \<times> rat) list" where
  "totals_by py key rows = foldl (\<lambda>d r. add_to py (key r) (amount_of py r) d) [] rows"

section \<open>What the specification says, in its own words\<close>

text \<open>
  The definitions of this section follow the wording of the specification, or of a claim
  as amended, to be compared with the functions above, which follow the code.
\<close>

text \<open>
  Amount normalisation: keep the ASCII digits, the points and the minus signs, parse what
  is kept as a signed decimal number, and give 0 when nothing is kept or it does not
  parse.
\<close>

definition normalize_amount_spec :: "pystr \<Rightarrow> rat" where
  "normalize_amount_spec x =
     (let kept = filter (\<lambda>ch. is_ascii_digit ch \<or> ch = 46 \<or> ch = 45) x
      in if kept = [] then 0 else (case parse_decimal kept of None \<Rightarrow> 0 | Some v \<Rightarrow> v))"

text \<open>
  The month key: strict parsing, then ISO parsing, then the split on dashes, taking the
  first two numeric segments as year and month when at least two segments exist,
  otherwise no key.
\<close>

definition month_key_spec :: "runtime \<Rightarrow> pystr \<Rightarrow> pystr option" where
  "month_key_spec py s =
     (case strptime_ymd py s of
        Some d \<Rightarrow> Some (month_key_text (year d) (month d))
      | None \<Rightarrow>
          (case fromisoformat py s of
             Some d \<Rightarrow> Some (month_key_text (year d) (month d))
           | None \<Rightarrow>
               (let segs = split_on 45 s; nums = List.map_filter (py_int py) segs
                in if length segs \<ge> 2
                   then (case nums of y # m # rest \<Rightarrow> Some (month_key_text y m) | _ \<Rightarrow> None)
                   else None)))"

text \<open>
  The month key as amended: the third stage drops the blank segments and gives a key only
  when every segment left is an integer and at least two are left; the first two are the
  year and the month.
\<close>

definition month_key_amended :: "runtime \<Rightarrow> pystr \<Rightarrow> pystr option" where
  "month_key_amended py s =
     (case strptime_ymd py s of
        Some d \<Rightarrow> Some (month_key_text (year d) (month d))
      | None \<Rightarrow>
          (case fromisoformat py s of
             Some d \<Rightarrow> Some (month_key_text (year d) (month d))
           | None \<Rightarrow>
               (let segs = filter (\<lambda>p. strip p \<noteq> []) (split_on 45 s)
                in if list_all (\<lambda>p. py_int py p \<noteq> None) segs \<and> length segs \<ge> 2
                   then Some (month_key_text (the (py_int py (segs ! 0))) (the (py_int py (segs ! 1))))
                   else None)))"

text \<open>
  A cell of a record of the file is missing when the record is too short for it. A row is
  normalised at the read boundary: every value without the white space around it, a
  missing or empty amount as the text \<^verbatim>\<open>0\<close>, any other missing value as the empty string.
\<close>

definition cell :: "pystr list \<Rightarrow> nat \<Rightarrow> pystr option" where
  "cell rec i = (if i < length rec then Some (rec ! i) else None)"

definition normalised_row :: "pystr list \<Rightarrow> expense" where
  "normalised_row rec =
     \<lparr>Date = (case cell rec 0 of None \<Rightarrow> [] | Some v \<Rightarrow> strip v),
      Category = (case cell rec 1 of None \<Rightarrow> [] | Some v \<Rightarrow> strip v),
      Amount = (case cell rec 2 of None \<Rightarrow> ascii ''0'' | Some v \<Rightarrow> if v = [] then ascii ''0'' else strip v),
      Note = (case cell rec 3 of None \<Rightarrow> [] | Some v \<Rightarrow> strip v)\<rparr>"

text \<open>
  A row is stripped when no value of it has white space at either end, and clean when,
  besides, its amount is not empty. Reading a stripped row that was written gives the row
  with an empty amount replaced by \<^verbatim>\<open>0\<close>.
\<close>

definition stripped_row :: "expense \<Rightarrow> bool" where
  "stripped_row r = (strip (Date r) = Date r \<and> strip (Category r) = Category r
     \<and> strip (Amount r) = Amount r \<and> strip (Note r) = Note r)"

definition clean_row :: "expense \<Rightarrow> bool" where
  "clean_row r = (strip (Date r) = Date r \<and> strip (Category r) = Category r
     \<and> strip (Amount r) = Amount r \<and> strip (Note r) = Note r \<and> Amount r \<noteq> [])"

definition reread :: "expense \<Rightarrow> expense" where
  "reread r = r\<lparr>Amount := or_else (Amount r) (ascii ''0'')\<rparr>"


section \<open>Example inputs\<close>

definition three_rows :: "csv_file" where
  "three_rows = [expense_headers,
     [ascii ''2024-03-15'', ascii ''Food'', ascii ''500.00'', []],
     [ascii ''2024-03-16'', ascii ''Bus'', ascii ''12.50'', ascii ''to work''],
     [ascii ''2024-04-01'', ascii ''Rent'', ascii ''9000'', []]]"



definition seven_categories :: "expense list" where
  "seven_categories =
     [\<lparr>Date = [], Category = ascii ''Tea'', Amount = ascii ''10'', Note = []\<rparr>,
      \<lparr>Date = [], Category = ascii ''Bus'', Amount = ascii ''50'', Note = []\<rparr>,
      \<lparr>Date = [], Category = ascii ''Rent'', Amount = ascii ''70'', Note = []\<rparr>,
      \<lparr>Date = [], Category = ascii ''Food'', Amount = ascii ''50'', Note = []\<rparr>,
      \<lparr>Date = [], Category = ascii ''Gym'', Amount = ascii ''30'', Note = []\<rparr>,
      \<lparr>Date = [], Category = ascii ''Books'', Amount = ascii ''60'', Note = []\<rparr>,
      \<lparr>Date = [], Category = ascii ''Phone'', Amount = ascii ''20'', Note = []\<rparr>,
      \<lparr>Date = [], Category = ascii ''Tea'', Amount = ascii ''5'', Note = []\<rparr>]"

section \<open>Properties of the expense file\<close>

lemma strip_Nil: "strip [] = []"
  by (simp add: strip_def)

lemma headers_distinct: "distinct expense_headers"
  by (simp add: expense_headers_def ascii_def)

lemma map_of_rev_zip:
  "distinct ks \<Longrightarrow> map_of (rev (zip ks vs)) k = map_of (zip ks vs) k"
  by (metis distinct_rev map_fst_zip_take distinct_take map_of_inject_set set_rev rev_map)

lemma dropWhile_trimmed:
  "dropWhile P (rev (dropWhile P (rev (dropWhile P s)))) = rev (dropWhile P (rev (dropWhile P s)))"
proof -
  define t where "t = dropWhile P s"
  define u where "u = dropWhile P (rev t)"
  have t: "t = rev u @ rev (takeWhile P (rev t))"
    unfolding u_def by (metis rev_append rev_rev_ident takeWhile_dropWhile_id)
  have "dropWhile P (rev u) = rev u"
  proof (cases "rev u = []")
    case True
    then show ?thesis by simp
  next
    case False
    then have "hd (rev u) = hd t" using t by (metis hd_append2)
    moreover have "t \<noteq> []" using False t by (metis Nil_is_append_conv)
    then have "\<not> P (hd t)" unfolding t_def by (rule hd_dropWhile)
    ultimately have "\<not> P (hd (rev u))" by simp
    then show ?thesis using False by (simp add: dropWhile_eq_self_iff)
  qed
  then show ?thesis unfolding u_def t_def .
qed

lemma dropWhile_strip: "dropWhile isspace (strip s) = strip s"
  unfolding strip_def by (rule dropWhile_trimmed)

lemma strip_strip: "strip (strip s) = strip s"
proof -
  have "strip (strip s) = rev (dropWhile isspace (rev (strip s)))"
    by (simp add: dropWhile_strip strip_def[of "strip s"])
  also have "rev (strip s) = dropWhile isspace (rev (dropWhile isspace s))"
    by (simp add: strip_def)
  finally show ?thesis by (simp add: strip_def)
qed

lemma strip_zero: "strip (ascii ''0'') = ascii ''0''"
  by (simp add: strip_def ascii_def isspace_def)

lemma upto_four_cases:
  obtains "rec = []" | a where "rec = [a]" | a b where "rec = [a, b]"
    | a b c where "rec = [a, b, c]" | a b c d rest where "rec = a # b # c # d # rest"
  by (metis neq_Nil_conv)

lemma header_lookup:
  "map_of (rev (zip expense_headers rec)) (ascii ''Date'') = cell rec 0"
  "map_of (rev (zip expense_headers rec)) (ascii ''Category'') = cell rec 1"
  "map_of (rev (zip expense_headers rec)) (ascii ''Amount'') = cell rec 2"
  "map_of (rev (zip expense_headers rec)) (ascii ''Note'') = cell rec 3"
  by (cases rec rule: upto_four_cases;
      simp add: map_of_rev_zip headers_distinct expense_headers_def cell_def ascii_def)+

lemma read_row: "(\<lambda>r. \<lparr>Date = strip (get_or r (ascii ''Date'') []),
                            Category = strip (get_or r (ascii ''Category'') []),
                            Amount = strip (get_or r (ascii ''Amount'') (ascii ''0'')),
                            Note = strip (get_or r (ascii ''Note'') [])\<rparr>)
     (map_of (rev (zip expense_headers rec))) = normalised_row rec"
  by (auto simp: header_lookup get_or_def normalised_row_def strip_Nil strip_zero split: option.splits)

lemma read_expenses_wellformed:
  "read_expenses (Some (expense_headers # recs)) =
     (map normalised_row (filter (\<lambda>rec. rec \<noteq> []) recs), Some (expense_headers # recs))"
  by (simp add: read_expenses_def ensure_csv_exists_def dict_reader_def read_row o_def)

lemma read_expenses_missing: "read_expenses None = ([], Some [expense_headers])"
  by (simp add: read_expenses_def ensure_csv_exists_def dict_reader_def)

lemma normalised_row_stripped: "stripped_row (normalised_row rec)"
  by (simp add: stripped_row_def normalised_row_def strip_strip strip_Nil strip_zero split: option.splits)

lemma read_expenses_stripped: "list_all stripped_row (fst (read_expenses f))"
  by (auto simp: read_expenses_def Let_def list_all_iff stripped_row_def strip_strip)

lemma normalised_row_fields:
  "normalised_row (row_fields r) =
     \<lparr>Date = strip (Date r), Category = strip (Category r),
      Amount = (if Amount r = [] then ascii ''0'' else strip (Amount r)), Note = strip (Note r)\<rparr>"
  by (simp add: normalised_row_def row_fields_def cell_def)

lemma read_write:
  "read_expenses (write_expenses rows f) =
     (map (\<lambda>r. normalised_row (row_fields r)) rows, Some (expense_headers # map row_fields rows))"
proof -
  have "filter (\<lambda>rec. rec \<noteq> []) (map row_fields rows) = map row_fields rows"
    by (induction rows) (simp_all add: row_fields_def)
  then show ?thesis
    by (simp add: write_expenses_def read_expenses_wellformed row_fields_def[symmetric] o_def)
qed

lemma normalised_clean: "normalised_row (row_fields r) = r \<longleftrightarrow> clean_row r"
proof
  assume h: "normalised_row (row_fields r) = r"
  have "Amount (normalised_row (row_fields r)) = Amount r" using h by simp
  then have a: "Amount r \<noteq> [] \<and> strip (Amount r) = Amount r"
    by (auto simp: normalised_row_fields ascii_def split: if_splits)
  have "Date (normalised_row (row_fields r)) = Date r"
       "Category (normalised_row (row_fields r)) = Category r"
       "Note (normalised_row (row_fields r)) = Note r" using h by simp_all
  then show "clean_row r" using a by (simp add: normalised_row_fields clean_row_def)
next
  assume "clean_row r"
  then show "normalised_row (row_fields r) = r"
    by (simp add: normalised_row_fields clean_row_def)
qed

lemma read_again: "read_expenses (snd (read_expenses f)) = read_expenses f"
  by (cases f) (simp_all add: read_expenses_def ensure_csv_exists_def)

lemma reread_stripped: "stripped_row r \<Longrightarrow> normalised_row (row_fields r) = reread r"
  by (simp add: normalised_row_fields stripped_row_def reread_def or_else_def)

lemma read_rows_reread:
  "list_all stripped_row rows \<Longrightarrow> map (\<lambda>r. normalised_row (row_fields r)) rows = map reread rows"
  by (induction rows) (simp_all add: reread_stripped)

text \<open>
  Claim C10. \<^verbatim>\<open>read_expenses\<close> normalises every row where it reads it: for a file with the
  expense header, every record that is not empty comes back as its normalised row (each
  value stripped, a missing or empty amount as \<^verbatim>\<open>0\<close>, another missing value as the empty
  string), in the order of the file, and the file is left as it was. Whatever the file,
  every value returned is stripped. The function is total: it returns for every file.
\<close>

theorem read_expenses_normalises:
  "read_expenses (Some (expense_headers # recs)) =
     (map normalised_row (filter (\<lambda>rec. rec \<noteq> []) recs), Some (expense_headers # recs))
   \<and> list_all stripped_row (fst (read_expenses f))"
  by (simp add: read_expenses_wellformed read_expenses_stripped)

theorem read_expenses_normalises_witness:
  "fst (read_expenses (Some [expense_headers,
        [ascii '' 2024-03-15'', ascii ''Food '', [], ascii ''lunch''],
        [],
        [ascii ''2024-03-16'', ascii ''Bus'']])) =
     [\<lparr>Date = ascii ''2024-03-15'', Category = ascii ''Food'', Amount = ascii ''0'', Note = ascii ''lunch''\<rparr>,
      \<lparr>Date = ascii ''2024-03-16'', Category = ascii ''Bus'', Amount = ascii ''0'', Note = []\<rparr>]"
  using read_expenses_normalises [of "[[ascii '' 2024-03-15'', ascii ''Food '', [], ascii ''lunch''],
        [], [ascii ''2024-03-16'', ascii ''Bus'']]" None]
  by (simp add: normalised_row_def cell_def strip_def isspace_def ascii_def)

text \<open>
  Claim C8, as amended. Writing rows with \<^verbatim>\<open>write_expenses\<close> and reading them with
  \<^verbatim>\<open>read_expenses\<close> gives the same rows in the same order exactly when every row is clean:
  no value has white space at either end and the amount is not empty. For such rows the
  amount text comes back character for character.
\<close>

theorem write_read_roundtrip:
  "fst (read_expenses (write_expenses rows f)) = rows \<longleftrightarrow> list_all clean_row rows"
proof -
  have "map (\<lambda>r. normalised_row (row_fields r)) rows = rows \<longleftrightarrow> list_all clean_row rows"
    by (induction rows) (simp_all add: normalised_clean)
  then show ?thesis by (simp add: read_write)
qed

theorem write_read_roundtrip_witness:
  "fst (read_expenses (write_expenses
      [\<lparr>Date = ascii ''2024-03-15'', Category = ascii ''Food'', Amount = 0x20B9 # ascii ''500.00'', Note = []\<rparr>,
       \<lparr>Date = ascii ''2024-03-16'', Category = ascii ''Bus'', Amount = ascii ''$12.50'', Note = ascii ''to work''\<rparr>] None)) =
      [\<lparr>Date = ascii ''2024-03-15'', Category = ascii ''Food'', Amount = 0x20B9 # ascii ''500.00'', Note = []\<rparr>,
       \<lparr>Date = ascii ''2024-03-16'', Category = ascii ''Bus'', Amount = ascii ''$12.50'', Note = ascii ''to work''\<rparr>]"
  using write_read_roundtrip [of "[\<lparr>Date = ascii ''2024-03-15'', Category = ascii ''Food'', Amount = 0x20B9 # ascii ''500.00'', Note = []\<rparr>,
       \<lparr>Date = ascii ''2024-03-16'', Category = ascii ''Bus'', Amount = ascii ''$12.50'', Note = ascii ''to work''\<rparr>]" None]
  by (simp add: clean_row_def strip_def isspace_def ascii_def)

text \<open>
  Claim C8 as stated fails: a file whose amount cell holds only blanks is read as a row
  with an empty amount; written and read again, that row comes back with the amount
  \<^verbatim>\<open>0\<close>.
\<close>

theorem write_read_roundtrip_counterexample:
  "fst (read_expenses (Some [expense_headers, [ascii ''2024-03-15'', ascii ''Food'', ascii ''  '', []]])) =
     [\<lparr>Date = ascii ''2024-03-15'', Category = ascii ''Food'', Amount = [], Note = []\<rparr>]
   \<and> fst (read_expenses (write_expenses
       [\<lparr>Date = ascii ''2024-03-15'', Category = ascii ''Food'', Amount = [], Note = []\<rparr>] None)) =
     [\<lparr>Date = ascii ''2024-03-15'', Category = ascii ''Food'', Amount = ascii ''0'', Note = []\<rparr>]
   \<and> fst (read_expenses (write_expenses
       [\<lparr>Date = ascii ''2024-03-15'', Category = ascii ''Food'', Amount = [], Note = []\<rparr>] None)) \<noteq>
     [\<lparr>Date = ascii ''2024-03-15'', Category = ascii ''Food'', Amount = [], Note = []\<rparr>]"
proof (intro conjI)
  show "fst (read_expenses (Some [expense_headers, [ascii ''2024-03-15'', ascii ''Food'', ascii ''  '', []]])) =
     [\<lparr>Date = ascii ''2024-03-15'', Category = ascii ''Food'', Amount = [], Note = []\<rparr>]"
    by (simp add: read_expenses_wellformed normalised_row_def cell_def strip_def isspace_def ascii_def)
  show "fst (read_expenses (write_expenses
       [\<lparr>Date = ascii ''2024-03-15'', Category = ascii ''Food'', Amount = [], Note = []\<rparr>] None)) =
     [\<lparr>Date = ascii ''2024-03-15'', Category = ascii ''Food'', Amount = ascii ''0'', Note = []\<rparr>]"
    by (simp add: read_write normalised_row_fields strip_def isspace_def ascii_def)
  then show "fst (read_expenses (write_expenses
       [\<lparr>Date = ascii ''2024-03-15'', Category = ascii ''Food'', Amount = [], Note = []\<rparr>] None)) \<noteq>
     [\<lparr>Date = ascii ''2024-03-15'', Category = ascii ''Food'', Amount = [], Note = []\<rparr>]"
    by (simp add: ascii_def)
qed

text \<open>
  Claim C9, as amended. Let \<open>rows\<close> be the rows \<^verbatim>\<open>read_expenses\<close> finds. With an index in
  range, \<^verbatim>\<open>on_delete\<close> shows "Deleted" and rewrites the file to the header and the rows
  without the one at the index, the others in their order; read again, they come back in
  that order (an empty amount as \<^verbatim>\<open>0\<close>). With an index out of range, \<^verbatim>\<open>on_delete\<close>, and
  \<^verbatim>\<open>on_save\<close> when it is given a date, a category and an amount, show "Row unavailable" and
  rewrite nothing: a file that exists is left as it is, a file that does not exist is
  created with its header alone by the read, and either way the file still reads as
  \<open>rows\<close>. With a blank date, category or amount \<^verbatim>\<open>on_save\<close> shows "Missing" and touches
  nothing, whatever the index.
\<close>

theorem delete_by_index:
  assumes "read_expenses f = (rows, f1)"
  shows "(0 \<le> i \<and> i < int (length rows) \<longrightarrow>
            on_delete i True f = (Some Deleted,
              Some (expense_headers # map row_fields (take (nat i) rows @ drop (Suc (nat i)) rows)))
            \<and> fst (read_expenses (snd (on_delete i True f))) =
                map reread (take (nat i) rows @ drop (Suc (nat i)) rows))
       \<and> (\<not> (0 \<le> i \<and> i < int (length rows)) \<longrightarrow>
            on_delete i True f = (Some RowUnavailable, f1)
            \<and> (strip c \<noteq> [] \<and> strip a \<noteq> [] \<and> strip d \<noteq> [] \<longrightarrow> on_save i d c a n f = (RowUnavailable, f1))
            \<and> f1 = (case f of None \<Rightarrow> Some [expense_headers] | Some recs \<Rightarrow> f)
            \<and> fst (read_expenses f1) = rows)
       \<and> (strip c = [] \<or> strip a = [] \<or> strip d = [] \<longrightarrow> on_save i d c a n f = (MissingFields, f))"
proof -
  have st: "list_all stripped_row rows"
    using read_expenses_stripped [of f] assms by simp
  then have st': "list_all stripped_row (take (nat i) rows @ drop (Suc (nat i)) rows)"
    by (auto simp: list_all_iff dest: in_set_takeD in_set_dropD)
  have f1: "f1 = (case f of None \<Rightarrow> Some [expense_headers] | Some recs \<Rightarrow> f)"
    using assms by (auto simp: read_expenses_def ensure_csv_exists_def Let_def split: option.splits)
  have missing: "strip c = [] \<or> strip a = [] \<or> strip d = [] \<Longrightarrow> on_save i d c a n f = (MissingFields, f)"
    by (auto simp: on_save_def)
  have again: "fst (read_expenses f1) = rows"
    using read_again [of f] assms by simp
  have del: "0 \<le> i \<and> i < int (length rows) \<Longrightarrow>
      on_delete i True f = (Some Deleted,
        Some (expense_headers # map row_fields (take (nat i) rows @ drop (Suc (nat i)) rows)))"
    using assms by (simp add: on_delete_def write_expenses_def row_fields_def[abs_def])
  have reread: "fst (read_expenses (Some (expense_headers #
        map row_fields (take (nat i) rows @ drop (Suc (nat i)) rows)))) =
      map reread (take (nat i) rows @ drop (Suc (nat i)) rows)"
    using read_write [of "take (nat i) rows @ drop (Suc (nat i)) rows" None]
      read_rows_reread [OF st']
    by (simp add: write_expenses_def row_fields_def[abs_def])
  have nodel: "\<not> (0 \<le> i \<and> i < int (length rows)) \<Longrightarrow>
      on_delete i True f = (Some RowUnavailable, f1)"
    using assms by (simp add: on_delete_def)
  have nosave: "\<not> (0 \<le> i \<and> i < int (length rows)) \<Longrightarrow>
      strip c \<noteq> [] \<and> strip a \<noteq> [] \<and> strip d \<noteq> [] \<Longrightarrow> on_save i d c a n f = (RowUnavailable, f1)"
    using assms by (simp add: on_save_def)
  show ?thesis
    using del reread nodel nosave f1 again missing by simp
qed

lemma three_rows_read:
  "read_expenses (Some three_rows) =
     ([\<lparr>Date = ascii ''2024-03-15'', Category = ascii ''Food'', Amount = ascii ''500.00'', Note = []\<rparr>,
       \<lparr>Date = ascii ''2024-03-16'', Category = ascii ''Bus'', Amount = ascii ''12.50'', Note = ascii ''to work''\<rparr>,
       \<lparr>Date = ascii ''2024-04-01'', Category = ascii ''Rent'', Amount = ascii ''9000'', Note = []\<rparr>],
      Some three_rows)"
  by (simp add: three_rows_def read_expenses_wellformed normalised_row_def cell_def strip_def isspace_def ascii_def)

theorem delete_by_index_witness:
  "on_delete 1 True (Some three_rows) =
     (Some Deleted, Some [expense_headers,
        [ascii ''2024-03-15'', ascii ''Food'', ascii ''500.00'', []],
        [ascii ''2024-04-01'', ascii ''Rent'', ascii ''9000'', []]])
   \<and> fst (read_expenses (snd (on_delete 1 True (Some three_rows)))) =
      [\<lparr>Date = ascii ''2024-03-15'', Category = ascii ''Food'', Amount = ascii ''500.00'', Note = []\<rparr>,
       \<lparr>Date = ascii ''2024-04-01'', Category = ascii ''Rent'', Amount = ascii ''9000'', Note = []\<rparr>]
   \<and> on_delete 3 True (Some three_rows) = (Some RowUnavailable, Some three_rows)
   \<and> on_save 3 (ascii ''2024-04-02'') (ascii ''Tea'') (ascii ''20'') [] (Some three_rows) =
       (RowUnavailable, Some three_rows)"
  using delete_by_index [OF three_rows_read, of 1 "ascii ''Tea''" "ascii ''20''" "ascii ''2024-04-02''" "[]"]
    delete_by_index [OF three_rows_read, of 3 "ascii ''Tea''" "ascii ''20''" "ascii ''2024-04-02''" "[]"]
  apply (simp add: row_fields_def reread_def or_else_def strip_def isspace_def ascii_def)
  apply (elim conjE)
  apply simp
  done

text \<open>
  Claim C9 as stated fails when the file is missing: the read that precedes the test of the
  index creates the file with its header, so with an index out of range "Row unavailable"
  is shown after a write, and the store is not as it was.
\<close>

theorem delete_by_index_counterexample:
  "on_delete 0 True None = (Some RowUnavailable, Some [expense_headers])
   \<and> on_save 0 (ascii ''2024-04-02'') (ascii ''Tea'') (ascii ''20'') [] None =
       (RowUnavailable, Some [expense_headers])
   \<and> Some [expense_headers] \<noteq> (None :: csv_file option)"
  by (simp add: on_delete_def on_save_def read_expenses_missing strip_def isspace_def ascii_def)

section \<open>Properties of the SIP calculator\<close>

lemmas py_eval = ascii_def strip_def isspace_def cpython_def unicode_isdigit_def
  unicode_todecimal_def py_float_def py_int_def to_ascii_def to_ascii_char_def c_strip_def
  c_isspace_def drop_underscores_def is_ascii_digit_def parse_decimal_def split_sign_def
  parse_exponent_def digits_value_def pow10_def















section \<open>Properties of the utilities\<close>

lemmas date_eval = strptime_model_def fromisoformat_model_def month_directive_def
  day_directive_def decimal_number_def valid_date_def days_in_month_def is_leap_def
  two_digits_def time_of_day_ok_def

lemma those_list_map:
  "those_list (map f xs) =
     (if list_all (\<lambda>x. f x \<noteq> None) xs then Some (map (\<lambda>x. the (f x)) xs) else None)"
  by (induction xs) (auto split: option.splits)

lemma digits_of_small [simp]: "n < 10 \<Longrightarrow> digits_of n = [48 + n]"
  by (subst digits_of.simps) simp

lemma digits_of_large: "10 \<le> n \<Longrightarrow> digits_of n = digits_of (n div 10) @ [48 + n mod 10]"
  by (subst digits_of.simps) simp

lemma key_2024_03: "month_key_text 2024 3 = ascii ''2024-03''"
  by (simp add: month_key_text_def format_d_def digits_of_large ascii_def)

lemma month_key_examples:
  "date_to_month_key cpython (ascii ''2024-03-15'') = Some (ascii ''2024-03'')"
  "date_to_month_key cpython (ascii ''2024-03'') = Some (ascii ''2024-03'')"
  "date_to_month_key cpython (ascii ''not-a-date'') = None"
  "date_to_month_key cpython (ascii ''2024-03-xx'') = None"
  "date_to_month_key cpython (ascii ''2024-03-15T10:30:00'') = Some (ascii ''2024-03'')"
  "date_to_month_key cpython [] = None"
  by (simp_all add: date_to_month_key_def py_eval date_eval key_2024_03 [unfolded ascii_def, simplified])

text \<open>
  Claim C2, as amended. \<^verbatim>\<open>date_to_month_key\<close> tries the strict parsing, then the ISO
  parsing, then the split on dashes, each stage only when the one before fails, and
  returns for every string. In the third stage the blank segments are dropped; a key is
  given only when every segment left is an integer and at least two are left, and the first
  two are the year and the month. Otherwise there is no key.
\<close>

theorem month_key_stages: "date_to_month_key py s = month_key_amended py s"
proof -
  define segs where "segs = filter (\<lambda>p. strip p \<noteq> []) (split_on 45 s)"
  have "2 \<le> length segs \<Longrightarrow>
      map (\<lambda>x. the (py_int py x)) segs ! 0 = the (py_int py (segs ! 0))
      \<and> map (\<lambda>x. the (py_int py x)) segs ! 1 = the (py_int py (segs ! 1))"
    by (cases segs; cases "tl segs") auto
  then show ?thesis
    unfolding date_to_month_key_def month_key_amended_def Let_def those_list_map segs_def [symmetric]
    by (simp split: option.splits)
qed

text \<open>The examples of the claim, on the strict parser, the split on dashes and no key.\<close>

theorem month_key_stages_witness:
  "month_key_amended cpython (ascii ''2024-03-15'') = Some (ascii ''2024-03'')
   \<and> month_key_amended cpython (ascii ''2024-03'') = Some (ascii ''2024-03'')
   \<and> month_key_amended cpython (ascii ''not-a-date'') = None"
  using month_key_stages [of cpython "ascii ''2024-03-15''", symmetric]
    month_key_stages [of cpython "ascii ''2024-03''", symmetric]
    month_key_stages [of cpython "ascii ''not-a-date''", symmetric]
  by (simp add: month_key_examples)

text \<open>
  Claim C2 as stated fails: \<^verbatim>\<open>2024-03-xx\<close> has three segments and its first two numeric
  segments are 2024 and 03, but the third segment is not an integer, \<^verbatim>\<open>int\<close> raises, and the
  code returns no key.
\<close>

theorem month_key_counterexample:
  "date_to_month_key cpython (ascii ''2024-03-xx'') = None
   \<and> month_key_spec cpython (ascii ''2024-03-xx'') = Some (ascii ''2024-03'')"
  by (simp add: month_key_examples)
     (simp add: month_key_spec_def py_eval date_eval List.map_filter_def key_2024_03 [unfolded ascii_def, simplified])



lemma filter_dropWhile_skip:
  "(\<And>c. Q c \<Longrightarrow> \<not> P c) \<Longrightarrow> filter P (dropWhile Q xs) = filter P xs"
  by (induction xs) auto

lemma filter_strip:
  assumes "\<And>c. isspace c \<Longrightarrow> \<not> P c"
  shows "filter P (strip xs) = filter P xs"
proof -
  have "filter P (strip xs) = rev (filter P (dropWhile isspace (rev (dropWhile isspace xs))))"
    by (simp add: strip_def rev_filter)
  also have "\<dots> = rev (filter P (rev (dropWhile isspace xs)))"
    using assms by (simp add: filter_dropWhile_skip)
  also have "\<dots> = filter P xs"
    using assms by (simp add: rev_filter filter_dropWhile_skip)
  finally show ?thesis .
qed

lemma those_list_Some: "those_list (map Some xs) = Some xs"
  by (induction xs) auto

lemma to_ascii_low: "\<forall>c\<in>set s. c < 127 \<Longrightarrow> to_ascii py s = Some s"
proof -
  assume a: "\<forall>c\<in>set s. c < 127"
  then have "map (to_ascii_char py) s = map Some s"
    by (simp add: to_ascii_char_def)
  then show ?thesis unfolding to_ascii_def by (simp only: those_list_Some)
qed

lemma underscores_ok_none: "95 \<notin> set s \<Longrightarrow> prev \<noteq> 95 \<Longrightarrow> underscores_ok prev s"
  by (induction s arbitrary: prev) auto

lemma drop_underscores_none: "95 \<notin> set s \<Longrightarrow> drop_underscores s = Some s"
  by (auto simp: drop_underscores_def underscores_ok_none filter_id_conv)

lemma c_strip_none: "\<forall>c\<in>set s. \<not> c_isspace c \<Longrightarrow> c_strip s = s"
proof -
  assume a: "\<forall>c\<in>set s. \<not> c_isspace c"
  have d: "\<And>xs. \<forall>c\<in>set xs. \<not> c_isspace c \<Longrightarrow> dropWhile c_isspace xs = xs"
    by (case_tac xs) auto
  show ?thesis using a by (simp add: c_strip_def d)
qed

lemma py_float_plain:
  assumes "\<forall>c\<in>set s. is_ascii_digit c \<or> c = 46 \<or> c = 45"
  shows "py_float py s = map_option (fl py) (parse_decimal s)"
proof -
  have "\<forall>c\<in>set s. c < 127" using assms by (auto simp: is_ascii_digit_def)
  moreover have "95 \<notin> set s" using assms by (auto simp: is_ascii_digit_def)
  moreover have "\<forall>c\<in>set s. \<not> c_isspace c" using assms by (auto simp: is_ascii_digit_def c_isspace_def)
  ultimately show ?thesis
    by (simp add: py_float_def to_ascii_low drop_underscores_none c_strip_none)
qed

text \<open>
  On a text in which \<^verbatim>\<open>isdigit\<close> accepts the ASCII digits only, the code does what the
  specification says of the amount, the number rounded to a float.
\<close>

lemma safe_float_ascii_digits:
  assumes "\<forall>c\<in>set x. isdigit py c = is_ascii_digit c" "fl py 0 = 0"
  shows "safe_float py x = fl py (normalize_amount_spec x)"
proof -
  let ?P = "\<lambda>ch. is_ascii_digit ch \<or> ch = 46 \<or> ch = 45"
  have sub: "set (strip x) \<subseteq> set x"
    by (metis strip_def set_rev set_dropWhileD subsetI)
  have "filter (\<lambda>ch. isdigit py ch \<or> ch = 46 \<or> ch = 45) (strip x) = filter ?P (strip x)"
    using assms(1) sub by (intro filter_cong) auto
  also have "\<dots> = filter ?P x"
    by (rule filter_strip) (auto simp: isspace_def is_ascii_digit_def)
  finally have c: "filter (\<lambda>ch. isdigit py ch \<or> ch = 46 \<or> ch = 45) (strip x) = filter ?P x" .
  have f: "py_float py (filter ?P x) = map_option (fl py) (parse_decimal (filter ?P x))"
    by (rule py_float_plain) simp
  show ?thesis
    unfolding safe_float_def normalize_amount_spec_def Let_def c f
    using assms(2) by (simp split: option.splits)
qed

text \<open>
  Claim C1 fails on the code. \<^verbatim>\<open>safe_float\<close> keeps every character that \<^verbatim>\<open>str.isdigit\<close>
  accepts, not only the ASCII digits. The first example of its own docstring, as the
  source file has it, is the text U+00E2 U+201A U+00B9 followed by \<^verbatim>\<open>500.00\<close>;
  U+00B9, superscript one, is a digit for \<^verbatim>\<open>isdigit\<close> and not a decimal digit for \<^verbatim>\<open>float\<close>,
  so it is kept, \<^verbatim>\<open>float\<close> raises, and the result is 0, where the docstring and the
  specification say 500.
\<close>

theorem safe_float_docstring_example:
  "safe_float cpython ([0xE2, 0x201A, 0xB9] @ ascii ''500.00'') = 0
   \<and> normalize_amount_spec ([0xE2, 0x201A, 0xB9] @ ascii ''500.00'') = 500"
  by (simp add: safe_float_def normalize_amount_spec_def py_eval)

section \<open>Properties of the charts\<close>

lemma foldl_tally:
  "foldl (tally py now) (a, b) rows =
     (foldl (\<lambda>d r. add_to py (category_key r) (amount_of py r) d) a rows,
      foldl (\<lambda>d r. add_to py (month_key_of py now r) (amount_of py r) d) b rows)"
  by (induction rows arbitrary: a b)
     (simp_all add: tally_def category_key_def month_key_of_def amount_of_def Let_def)

lemma category_totals_by: "category_totals py now rows = totals_by py category_key rows"
  by (simp add: category_totals_def totals_by_def foldl_tally)


lemma totals_by_snoc:
  "totals_by py key (rows @ [r]) = add_to py (key r) (amount_of py r) (totals_by py key rows)"
  by (simp add: totals_by_def)

lemma add_to_keys:
  "map fst (add_to py k a d) = (if k \<in> fst ` set d then map fst d else map fst d @ [k])"
  by (induction py k a d rule: add_to.induct) auto


lemma totals_by_keys: "fst ` set (totals_by py key rows) = key ` set rows"
proof (induction rows rule: rev_induct)
  case Nil
  then show ?case by (simp add: totals_by_def)
next
  case (snoc r rows)
  have "set (map fst (totals_by py key (rows @ [r]))) = insert (key r) (fst ` set (totals_by py key rows))"
    unfolding totals_by_snoc add_to_keys by auto
  then show ?case using snoc by auto
qed


text \<open>The keys stand in the order in which the rows first use them.\<close>

lemma totals_by_order: "map fst (totals_by py key rows) = rev (remdups (rev (map key rows)))"
proof (induction rows rule: rev_induct)
  case Nil
  then show ?case by (simp add: totals_by_def)
next
  case (snoc r rows)
  have s: "fst ` set (totals_by py key rows) = key ` set rows" by (rule totals_by_keys)
  show ?case unfolding totals_by_snoc add_to_keys s using snoc by auto
qed







lemma py_sum_exact:
  assumes "\<And>j. j \<le> length vs \<Longrightarrow> fl py (sum_list (take j vs)) = sum_list (take j vs)"
  shows "py_sum py vs = sum_list vs"
  using assms
proof (induction vs rule: rev_induct)
  case Nil
  then show ?case by (simp add: py_sum_def)
next
  case (snoc v vs)
  have "py_sum py vs = sum_list vs"
  proof (rule snoc.IH)
    fix j assume "j \<le> length vs"
    then show "fl py (sum_list (take j vs)) = sum_list (take j vs)"
      using snoc.prems [of j] by simp
  qed
  moreover have "fl py (sum_list (vs @ [v])) = sum_list (vs @ [v])"
    using snoc.prems [of "length (vs @ [v])"] by simp
  ultimately show ?case by (simp add: py_sum_def fadd_def)
qed




lemma fl_cpython: "fl cpython = binary64"
  by (simp add: cpython_def)







lemma sorted_categories_desc: "sorted_wrt (\<lambda>a b. snd b \<le> snd a) (sorted_categories items)"
proof -
  have "sorted (map (\<lambda>kv. - snd kv) (sorted_categories items))"
    unfolding sorted_categories_def by (rule sorted_sort_key)
  then show ?thesis by (simp add: sorted_map)
qed

lemma sorted_categories_stable:
  "filter (\<lambda>kv. snd kv = v) (sorted_categories items) = filter (\<lambda>kv. snd kv = v) items"
proof -
  have "filter (\<lambda>kv. - snd kv = - v) (sort_key (\<lambda>kv. - snd kv) items) =
        filter (\<lambda>kv. - snd kv = - v) items"
    by (rule sort_key_stable)
  then show ?thesis by (simp add: sorted_categories_def)
qed

lemma sorted_categories_mset: "mset (sorted_categories items) = mset items"
  by (simp add: sorted_categories_def)

lemma bar_cats_length: "length (bar_cats sc) \<le> top_n"
  by (simp add: bar_cats_def top_n_def Let_def)

lemma py_sum_exact_runtime: "(\<And>q. fl py q = q) \<Longrightarrow> py_sum py vs = sum_list vs"
  by (rule py_sum_exact) simp

lemma others_residual:
  assumes "\<And>q. fl py q = q"
  shows "py_sum py (map snd (drop 6 (sorted_categories items))) =
           sum_list (map snd items) - sum_list (map snd (take 6 (sorted_categories items)))"
proof -
  let ?sc = "sorted_categories items"
  have "sum_list (map snd items) = sum_list (map snd ?sc)"
    using sorted_categories_mset [of items] by (metis mset_map sum_mset_sum_list)
  also have "\<dots> = sum_list (map snd (take 6 ?sc)) + sum_list (map snd (drop 6 ?sc))"
    by (metis append_take_drop_id map_append sum_list_append)
  finally show ?thesis using py_sum_exact_runtime [OF assms] by simp
qed

text \<open>
  Claim C6. For the charts of any expense file: the sorted categories are in descending
  order of their totals, they are the category totals rearranged, and the categories of
  equal total keep the order of the category totals, which is the order of first use in the
  rows; the bar chart shows the first \<open>top_n\<close> of them, at most, each with its total (one bar
  \<^verbatim>\<open>No data\<close> of height 0 when there is none); with more than six categories
  the pie shows the first six and then \<^verbatim>\<open>Others\<close>, whose size is the sum of the totals from
  the seventh on (in exact arithmetic, the sum of all totals less the first six); when the
  sizes add to zero the pie is the single slice \<^verbatim>\<open>No data\<close> of size 1; the category totals
  of the charts are the ones computed from the rows either way.
\<close>

theorem top_categories:
  "(let rows = fst (read_expenses f);
        ct = category_totals py now rows;
        sc = sorted_categories ct;
        ch = update_charts py now f;
        top = (if length sc > 6 then map fst (take 6 sc) @ [ascii ''Others''] else map fst sc);
        top_sizes = (if length sc > 6 then map snd (take 6 sc) @ [py_sum py (map snd (drop 6 sc))]
                     else map snd sc)
    in sorted_wrt (\<lambda>a b. snd b \<le> snd a) sc
       \<and> mset sc = mset ct
       \<and> (\<forall>v. filter (\<lambda>kv. snd kv = v) sc = filter (\<lambda>kv. snd kv = v) ct)
       \<and> map fst ct = rev (remdups (rev (map (\<lambda>r. or_else (Category r) (ascii ''Uncategorized'')) rows)))
       \<and> cats ch = (if sc = [] then [ascii ''No data''] else map fst (take top_n sc))
       \<and> vals ch = (if sc = [] then [0] else map snd (take top_n sc))
       \<and> length (cats ch) \<le> top_n \<and> length (vals ch) = length (cats ch)
       \<and> (py_sum py top_sizes \<noteq> 0 \<longrightarrow> labels ch = top \<and> sizes ch = top_sizes)
       \<and> (py_sum py top_sizes = 0 \<longrightarrow> labels ch = [ascii ''No data''] \<and> sizes ch = [1])
       \<and> ((\<forall>q. fl py q = q) \<longrightarrow>
            py_sum py (map snd (drop 6 sc)) = sum_list (map snd ct) - sum_list (map snd (take 6 sc)))
       \<and> chart_category_totals ch = ct)"
proof -
  define rows where "rows = fst (read_expenses f)"
  define ct where "ct = category_totals py now rows"
  define sc where "sc = sorted_categories ct"
  have order: "map fst ct = rev (remdups (rev (map (\<lambda>r. or_else (Category r) (ascii ''Uncategorized'')) rows)))"
    unfolding ct_def category_totals_by totals_by_order by (simp add: category_key_def [abs_def])
  have cats: "cats (update_charts py now f) = (if sc = [] then [ascii ''No data''] else map fst (take top_n sc))"
    by (simp add: update_charts_def Let_def bar_cats_def sc_def ct_def rows_def top_n_def)
  have vals: "vals (update_charts py now f) = (if sc = [] then [0] else map snd (take top_n sc))"
    by (simp add: update_charts_def Let_def bar_vals_def sc_def ct_def rows_def top_n_def)
  have len: "length (cats (update_charts py now f)) \<le> top_n"
    using bar_cats_length by (simp add: update_charts_def Let_def)
  have len2: "length (vals (update_charts py now f)) = length (cats (update_charts py now f))"
    unfolding cats vals by simp
  have pie: "labels (update_charts py now f) = fst (pie_slices py sc)"
      "sizes (update_charts py now f) = snd (pie_slices py sc)"
      "chart_category_totals (update_charts py now f) = ct"
    by (simp_all add: update_charts_def Let_def sc_def ct_def rows_def)
  have res: "(\<forall>q. fl py q = q) \<longrightarrow>
      py_sum py (map snd (drop 6 sc)) = sum_list (map snd ct) - sum_list (map snd (take 6 sc))"
    using others_residual [of py ct] by (simp add: sc_def)
  show ?thesis
    unfolding Let_def rows_def [symmetric] ct_def [symmetric] sc_def [symmetric]
    using sorted_categories_desc [of ct] sorted_categories_mset [of ct]
      sorted_categories_stable [of _ ct] order cats vals len len2 res
    by (simp add: sc_def [symmetric] pie pie_slices_def Let_def)
qed

lemma binary64_ints:
  "binary64 5 = 5" "binary64 10 = 10" "binary64 15 = 15" "binary64 20 = 20" "binary64 30 = 30"
  "binary64 50 = 50" "binary64 60 = 60" "binary64 70 = 70" "binary64 130 = 130"
  "binary64 180 = 180" "binary64 230 = 230" "binary64 260 = 260" "binary64 280 = 280"
  "binary64 295 = 295"
  by code_simp+

lemma seven_amounts:
  "safe_float cpython (ascii ''5'') = 5" "safe_float cpython (ascii ''10'') = 10"
  "safe_float cpython (ascii ''20'') = 20" "safe_float cpython (ascii ''30'') = 30"
  "safe_float cpython (ascii ''50'') = 50" "safe_float cpython (ascii ''60'') = 60"
  "safe_float cpython (ascii ''70'') = 70"
  by (simp_all add: safe_float_def py_eval binary64_ints)

lemma seven_read: "fst (read_expenses (write_expenses seven_categories None)) = seven_categories"
proof -
  have "list_all clean_row seven_categories"
    by (simp add: seven_categories_def clean_row_def strip_def isspace_def ascii_def)
  then have "map (\<lambda>r. normalised_row (row_fields r)) seven_categories = seven_categories"
    by (simp add: list_all_iff normalised_clean map_idI)
  then show ?thesis by (simp add: read_write)
qed

lemma seven_totals:
  "category_totals cpython now seven_categories =
     [(ascii ''Tea'', 15), (ascii ''Bus'', 50), (ascii ''Rent'', 70), (ascii ''Food'', 50),
      (ascii ''Gym'', 30), (ascii ''Books'', 60), (ascii ''Phone'', 20)]"
  by (simp add: category_totals_by totals_by_def seven_categories_def category_key_def or_else_def
      amount_of_def seven_amounts [unfolded ascii_def, simplified] ascii_def fadd_def fl_cpython
      binary64_ints)

lemma seven_sorted:
  "sorted_categories (category_totals cpython now seven_categories) =
     [(ascii ''Rent'', 70), (ascii ''Books'', 60), (ascii ''Bus'', 50), (ascii ''Food'', 50),
      (ascii ''Gym'', 30), (ascii ''Phone'', 20), (ascii ''Tea'', 15)]"
  by (simp add: seven_totals sorted_categories_def)

theorem top_categories_witness:
  "labels (update_charts cpython (ascii ''2024-04'') (write_expenses seven_categories None)) =
     [ascii ''Rent'', ascii ''Books'', ascii ''Bus'', ascii ''Food'', ascii ''Gym'', ascii ''Phone'',
      ascii ''Others'']
   \<and> sizes (update_charts cpython (ascii ''2024-04'') (write_expenses seven_categories None)) =
     [70, 60, 50, 50, 30, 20, 15]
   \<and> cats (update_charts cpython (ascii ''2024-04'') (write_expenses seven_categories None)) =
     [ascii ''Rent'', ascii ''Books'', ascii ''Bus'', ascii ''Food'', ascii ''Gym'', ascii ''Phone'',
      ascii ''Tea'']
   \<and> vals (update_charts cpython (ascii ''2024-04'') (write_expenses seven_categories None)) =
     [70, 60, 50, 50, 30, 20, 15]
   \<and> cats (update_charts cpython (ascii ''2024-04'') None) = [ascii ''No data'']
   \<and> vals (update_charts cpython (ascii ''2024-04'') None) = [0]
   \<and> labels (update_charts cpython (ascii ''2024-04'') None) = [ascii ''No data'']
   \<and> sizes (update_charts cpython (ascii ''2024-04'') None) = [1]
   \<and> chart_category_totals (update_charts cpython (ascii ''2024-04'') None) = []"
proof -
  have empty: "category_totals cpython (ascii ''2024-04'') [] = []"
    by (simp add: category_totals_def)
  have none: "fst (read_expenses None) = []"
    by (simp add: read_expenses_missing)
  have a: "py_sum cpython [70, 60, 50, 50, 30, 20, 15] \<noteq> 0"
    by (simp add: py_sum_def fadd_def fl_cpython binary64_ints)
  have b: "py_sum cpython [15] = 15" "py_sum cpython [] = 0"
    by (simp_all add: py_sum_def fadd_def fl_cpython binary64_ints)
  note seven = top_categories [of "write_expenses seven_categories None" cpython "ascii ''2024-04''",
      unfolded Let_def seven_read seven_sorted]
  note zero = top_categories [of None cpython "ascii ''2024-04''", unfolded Let_def none empty]
  have s: "sorted_categories [] = []"
    by (simp add: sorted_categories_def)
  show ?thesis
    using seven zero a by (simp add: b s top_n_def)
qed

end
